theory Spec2Isabelle
  imports Main
begin

section \<open>Data model (models/sql\_.py, models/requests\_.py, models/responses\_.py)\<close>

text \<open>
  Identifiers are UUIDs; only their equality is ever used, so they are natural numbers here.
  \<^verbatim>\<open>uuid.uuid4\<close>, the \<^verbatim>\<open>default_factory\<close> of \<^verbatim>\<open>DefaultMixin.id\<close>, draws an
  identifier that is not in use: the model takes one above every identifier of the table.
\<close>

type_synonym uuid = nat

definition uuid4 :: "uuid list \<Rightarrow> uuid" where
  "uuid4 used = Suc (fold max used 0)"

text \<open>
  The table rows. \<^verbatim>\<open>created_at\<close> is filled by the server and never read by the handlers
  below; the rows of a table are kept in insertion order, which is the order of
  \<^verbatim>\<open>created_at\<close>. Of a material only its primary key matters here.
\<close>

record StockPosition =
  sp_id :: uuid
  material_id :: uuid
  warehouse_id :: uuid
  quantity :: int

record Warehouse =
  w_id :: uuid
  name :: string
  slug :: string
  location :: string
  max_capacity :: int

text \<open>
  The store: the three tables the delivery and warehouse handlers touch, and whether the
  store enforces foreign keys (SQLite does so only on request).
\<close>

record database =
  warehouse :: "Warehouse list"
  material :: "uuid list"
  stockposition :: "StockPosition list"
  foreign_keys :: bool

text \<open>
  A session is a transaction on the store: \<open>db\<close> is what is committed, \<open>txn\<close> is the
  transaction's own view, which holds every flushed statement. An ORM object is addressed
  by the position of its row in the table (the identity map hands out one object per row).
\<close>

record Session =
  db :: database
  txn :: database

definition Session_open :: "database \<Rightarrow> Session" where
  "Session_open d = \<lparr>db = d, txn = d\<rparr>"

definition commit :: "Session \<Rightarrow> Session" where
  "commit s = s\<lparr>db := txn s\<rparr>"

definition rollback :: "Session \<Rightarrow> Session" where
  "rollback s = s\<lparr>txn := db s\<rparr>"

text \<open>The exceptions that travel through the handlers.\<close>

datatype exn =
    RepositoryException string
  | NoResultFound
  | MultipleResultsFound
  | IntegrityError
  | HTTPException nat string

fun str :: "exn \<Rightarrow> string" where
  "str (RepositoryException m) = m"
| "str NoResultFound = ''No row was found when one was required''"
| "str MultipleResultsFound = ''Multiple rows were found when exactly one was required''"
| "str IntegrityError = ''integrity constraint failed''"
| "str (HTTPException c m) = m"

section \<open>Repository layer (repositories/base.py, repositories/sql\_.py)\<close>

text \<open>\<^verbatim>\<open>camel_to_lower_with_spaces\<close>, on the ASCII letters of a class name.\<close>

definition isupper :: "char \<Rightarrow> bool" where
  "isupper c \<longleftrightarrow> (65::nat) \<le> of_char c \<and> of_char c \<le> (90::nat)"

definition lower :: "char \<Rightarrow> char" where
  "lower c = (if isupper c then char_of (of_char c + (32::nat)) else c)"

fun camel_words :: "nat \<Rightarrow> string \<Rightarrow> string" where
  "camel_words i [] = []"
| "camel_words i (c # cs) =
     (if isupper c \<and> i \<noteq> 0 then CHR '' '' # lower c # camel_words (Suc i) cs
      else lower c # camel_words (Suc i) cs)"

definition camel_to_lower_with_spaces :: "string \<Rightarrow> string" where
  "camel_to_lower_with_spaces s = camel_words 0 s"

text \<open>
  What \<^verbatim>\<open>self._model\<close> gives a repository: the class name, the table behind the class,
  the \<^verbatim>\<open>id\<close> and \<^verbatim>\<open>slug\<close> attributes where the class has them, the constraints the
  store checks when a row is written (against the other rows of the table), whether two
  versions of a row agree on every column that carries a constraint, and what a deletion
  cascades to.
\<close>

record 'a Model =
  class_name :: string
  table :: "database \<Rightarrow> 'a list"
  put_table :: "'a list \<Rightarrow> database \<Rightarrow> database"
  id_attr :: "('a \<Rightarrow> uuid) option"
  slug_attr :: "('a \<Rightarrow> string) option"
  constraints :: "database \<Rightarrow> 'a list \<Rightarrow> 'a \<Rightarrow> bool"
  keys_unchanged :: "'a \<Rightarrow> 'a \<Rightarrow> bool"
  cascade :: "'a \<Rightarrow> database \<Rightarrow> database"

definition model_name :: "'a Model \<Rightarrow> string" where
  "model_name M = camel_to_lower_with_spaces (class_name M)"

text \<open>
  A query: the addresses of the rows that satisfy the \<^verbatim>\<open>where\<close> clauses, in table
  order; \<^verbatim>\<open>.one()\<close> wants exactly one of them.
\<close>

definition select_where :: "('a \<Rightarrow> bool) \<Rightarrow> 'a list \<Rightarrow> nat list" where
  "select_where P rows = filter (\<lambda>i. P (rows ! i)) [0..<length rows]"

fun one :: "nat list \<Rightarrow> exn + nat" where
  "one [] = Inl NoResultFound"
| "one [r] = Inr r"
| "one (r # r' # rs) = Inl MultipleResultsFound"

definition not_initialized :: exn where
  "not_initialized = RepositoryException ''database session not initialized''"

definition not_found :: "'a Model \<Rightarrow> exn" where
  "not_found M = RepositoryException (model_name M @ '' not found'')"

text \<open>
  The repository methods. The first argument after the model is \<^verbatim>\<open>self._session\<close>:
  \<open>None\<close> until \<^verbatim>\<open>use_session\<close> has bound the repository to the request's session.
\<close>

definition use_session :: "Session \<Rightarrow> Session option" where
  "use_session s = Some s"

definition find_by_id :: "'a Model \<Rightarrow> Session option \<Rightarrow> uuid \<Rightarrow> exn + nat" where
  "find_by_id M session i =
     (case session of
        None \<Rightarrow> Inl not_initialized
      | Some s \<Rightarrow>
          (case id_attr M of
             None \<Rightarrow> Inl (RepositoryException (model_name M @ '' have not got 'id' attribute.''))
           | Some attr \<Rightarrow>
               (case one (select_where (\<lambda>r. attr r = i) (table M (txn s))) of
                  Inl NoResultFound \<Rightarrow> Inl (not_found M)
                | Inl e \<Rightarrow> Inl e
                | Inr r \<Rightarrow> Inr r)))"

definition find_by_slug :: "'a Model \<Rightarrow> Session option \<Rightarrow> string \<Rightarrow> exn + nat" where
  "find_by_slug M session sl =
     (case session of
        None \<Rightarrow> Inl not_initialized
      | Some s \<Rightarrow>
          (case slug_attr M of
             None \<Rightarrow> Inl (RepositoryException (model_name M @ '' have not got 'slug' attribute.''))
           | Some attr \<Rightarrow>
               (case one (select_where (\<lambda>r. attr r = sl) (table M (txn s))) of
                  Inl NoResultFound \<Rightarrow> Inl (not_found M)
                | Inl e \<Rightarrow> Inl e
                | Inr r \<Rightarrow> Inr r)))"


text \<open>
  \<^verbatim>\<open>create\<close> and \<^verbatim>\<open>update\<close> add the record to the session and flush: the INSERT or
  UPDATE reaches the transaction at once, and the store raises IntegrityError when the
  written row breaks a constraint. A failed statement leaves the transaction as it was.
  An object that was not changed is not written, and an UPDATE that changes no
  constrained column breaks no constraint. \<^verbatim>\<open>create\<close> returns the address of the
  new row with the session, \<^verbatim>\<open>update\<close> the session.
\<close>

definition create :: "'a Model \<Rightarrow> Session option \<Rightarrow> 'a \<Rightarrow> exn + nat \<times> Session" where
  "create M session record =
     (case session of
        None \<Rightarrow> Inl not_initialized
      | Some s \<Rightarrow>
          (let rows = table M (txn s)
           in if constraints M (txn s) rows record
              then Inr (length rows, s\<lparr>txn := put_table M (rows @ [record]) (txn s)\<rparr>)
              else Inl IntegrityError))"

definition update :: "'a Model \<Rightarrow> Session option \<Rightarrow> nat \<Rightarrow> 'a \<Rightarrow> exn + Session" where
  "update M session r record =
     (case session of
        None \<Rightarrow> Inl not_initialized
      | Some s \<Rightarrow>
          (let rows = table M (txn s)
           in if record = rows ! r then Inr s
              else if keys_unchanged M (rows ! r) record \<or>
                      constraints M (txn s) (take r rows @ drop (Suc r) rows) record
              then Inr (s\<lparr>txn := put_table M (rows[r := record]) (txn s)\<rparr>)
              else Inl IntegrityError))"


text \<open>
  The two repositories of the delivery handler. A warehouse has a unique primary key,
  name, slug and location, and the two CHECK constraints of \<^verbatim>\<open>NamedMixin\<close>; deleting it
  deletes its stock. A stock position has a primary key and two foreign keys, and no
  uniqueness constraint on the pair (warehouse, material).
\<close>

definition Warehouse_constraints :: "database \<Rightarrow> Warehouse list \<Rightarrow> Warehouse \<Rightarrow> bool" where
  "Warehouse_constraints d others r \<longleftrightarrow>
     w_id r \<notin> set (map w_id others) \<and>
     name r \<notin> set (map name others) \<and>
     slug r \<notin> set (map slug others) \<and>
     location r \<notin> set (map location others) \<and>
     1 < length (name r) \<and> 0 < length (slug r)"

definition Warehouse_model :: "Warehouse Model" where
  "Warehouse_model =
     \<lparr>class_name = ''Warehouse'',
      table = warehouse,
      put_table = (\<lambda>rows d. d\<lparr>warehouse := rows\<rparr>),
      id_attr = Some w_id,
      slug_attr = Some slug,
      constraints = Warehouse_constraints,
      keys_unchanged = (\<lambda>old new. w_id new = w_id old \<and> name new = name old \<and>
                                  slug new = slug old \<and> location new = location old),
      cascade = (\<lambda>r d. d\<lparr>stockposition := filter (\<lambda>p. warehouse_id p \<noteq> w_id r) (stockposition d)\<rparr>)\<rparr>"

definition StockPosition_constraints ::
  "database \<Rightarrow> StockPosition list \<Rightarrow> StockPosition \<Rightarrow> bool" where
  "StockPosition_constraints d others r \<longleftrightarrow>
     (sp_id r \<notin> set (map sp_id others) \<and>
      (if foreign_keys d
       then material_id r \<in> set (material d) \<and> warehouse_id r \<in> set (map w_id (warehouse d))
       else True))"

definition StockPosition_model :: "StockPosition Model" where
  "StockPosition_model =
     \<lparr>class_name = ''StockPosition'',
      table = stockposition,
      put_table = (\<lambda>rows d. d\<lparr>stockposition := rows\<rparr>),
      id_attr = Some sp_id,
      slug_attr = None,
      constraints = StockPosition_constraints,
      keys_unchanged = (\<lambda>old new. sp_id new = sp_id old \<and> material_id new = material_id old \<and>
                                  warehouse_id new = warehouse_id old),
      cascade = (\<lambda>r d. d)\<rparr>"

definition find_by_warehouse_id_and_material_id ::
  "Session option \<Rightarrow> uuid \<Rightarrow> uuid \<Rightarrow> exn + nat" where
  "find_by_warehouse_id_and_material_id session wid mid =
     (case session of
        None \<Rightarrow> Inl not_initialized
      | Some s \<Rightarrow>
          (case one (select_where (\<lambda>r. warehouse_id r = wid \<and> material_id r = mid)
                       (stockposition (txn s))) of
             Inl NoResultFound \<Rightarrow> Inl (not_found StockPosition_model)
           | Inl e \<Rightarrow> Inl e
           | Inr r \<Rightarrow> Inr r))"

section \<open>The Warehouse object and its derived capacity (models/sql\_.py)\<close>

text \<open>
  A loaded \<^verbatim>\<open>Warehouse\<close> object: the address of its row, and its \<^verbatim>\<open>stock\<close>
  relationship. The relationship is lazy: the first read of \<^verbatim>\<open>self.stock\<close> queries the
  stock positions of the warehouse and keeps the collection of those objects on the
  warehouse object, and later reads return that same collection. The collection holds the
  objects themselves, so a change of a member's quantity is seen through it; a
  \<^verbatim>\<open>StockPosition\<close> that is constructed from \<^verbatim>\<open>warehouse_id\<close> and added to the session
  is not appended to it. Committing or rolling back expires the object, and the next read
  loads the collection again.
\<close>

record Warehouse_object =
  ref :: nat
  stock_rel :: "nat list option"

definition expire :: "Warehouse_object \<Rightarrow> Warehouse_object" where
  "expire w = w\<lparr>stock_rel := None\<rparr>"

definition row :: "Session \<Rightarrow> Warehouse_object \<Rightarrow> Warehouse" where
  "row s w = warehouse (txn s) ! ref w"

text \<open>
  Reading \<^verbatim>\<open>self.stock\<close>: the value read (a list of stock positions; the ORM never
  yields \<^verbatim>\<open>None\<close> for a loaded object) and the object with its collection loaded.
\<close>

definition Warehouse_stock ::
  "Session \<Rightarrow> Warehouse_object \<Rightarrow> StockPosition list option \<times> Warehouse_object" where
  "Warehouse_stock s w =
     (let refs = (case stock_rel w of
                    Some refs \<Rightarrow> refs
                  | None \<Rightarrow> select_where (\<lambda>p. warehouse_id p = w_id (row s w))
                              (stockposition (txn s)))
      in (Some (map (\<lambda>r. stockposition (txn s) ! r) refs), w\<lparr>stock_rel := Some refs\<rparr>))"

definition capacity :: "int \<Rightarrow> StockPosition list option \<Rightarrow> int" where
  "capacity max_cap stock =
     (case stock of
        None \<Rightarrow> max_cap
      | Some ps \<Rightarrow> max_cap - sum_list (map quantity ps))"

definition Warehouse_capacity :: "Session \<Rightarrow> Warehouse_object \<Rightarrow> int \<times> Warehouse_object" where
  "Warehouse_capacity s w =
     (let (stock, w') = Warehouse_stock s w
      in (capacity (max_capacity (row s w)) stock, w'))"

text \<open>The response models; \<^verbatim>\<open>model_validate\<close> reads the attributes of the object.\<close>

record WarehouseResponseSimple =
  r_name :: string
  r_slug :: string
  r_location :: string
  r_capacity :: int
  r_max_capacity :: int

record WarehouseResponse = WarehouseResponseSimple +
  r_id :: uuid
  r_stock :: "StockPosition list option"

definition WarehouseResponseSimple_model_validate ::
  "Session \<Rightarrow> Warehouse_object \<Rightarrow> WarehouseResponseSimple" where
  "WarehouseResponseSimple_model_validate s w =
     \<lparr>r_name = name (row s w), r_slug = slug (row s w), r_location = location (row s w),
      r_capacity = fst (Warehouse_capacity s w), r_max_capacity = max_capacity (row s w)\<rparr>"

definition WarehouseResponse_model_validate ::
  "Session \<Rightarrow> Warehouse_object \<Rightarrow> WarehouseResponse" where
  "WarehouseResponse_model_validate s w =
     \<lparr>r_name = name (row s w), r_slug = slug (row s w), r_location = location (row s w),
      r_capacity = fst (Warehouse_capacity s w), r_max_capacity = max_capacity (row s w),
      r_id = w_id (row s w),
      r_stock = fst (Warehouse_stock s w)\<rparr>"

section \<open>The delivery handler (routers/delivery.py)\<close>

record DeliveryPosition =
  dp_material_id :: uuid
  dp_quantity :: int

record Delivery =
  d_warehouse_id :: uuid
  positions :: "DeliveryPosition list"

definition capacity_exceeded :: exn where
  "capacity_exceeded =
     HTTPException 400
       ''delivery cannot be processed because it exceeds current warehouse capacity''"

text \<open>
  The body of the loop over \<^verbatim>\<open>delivery.positions\<close>: the capacity check, then the
  \<^verbatim>\<open>try\<close> block (find, increment, update) with its \<^verbatim>\<open>except RepositoryException\<close>
  (construct, create). The result is the exception raised, if any, with the session and
  the warehouse object as they are at that point.
\<close>

definition process_position ::
  "Session \<Rightarrow> Warehouse_object \<Rightarrow> DeliveryPosition \<Rightarrow> exn option \<times> Session \<times> Warehouse_object" where
  "process_position s w position =
     (let (cap, w') = Warehouse_capacity s w
      in if cap < dp_quantity position then (Some capacity_exceeded, s, w')
         else
           (case (case find_by_warehouse_id_and_material_id (use_session s)
                         (w_id (row s w')) (dp_material_id position) of
                    Inl e \<Rightarrow> Inl e
                  | Inr r \<Rightarrow>
                      (let stock = stockposition (txn s) ! r
                       in update StockPosition_model (use_session s) r
                            (stock\<lparr>quantity := quantity stock + dp_quantity position\<rparr>))) of
              Inr s' \<Rightarrow> (None, s', w')
            | Inl (RepositoryException m) \<Rightarrow>
                (case create StockPosition_model (use_session s)
                        \<lparr>sp_id = uuid4 (map sp_id (stockposition (txn s))),
                         material_id = dp_material_id position,
                         warehouse_id = w_id (row s w'),
                         quantity = dp_quantity position\<rparr> of
                   Inl e \<Rightarrow> (Some e, s, w')
                 | Inr (r, s') \<Rightarrow> (None, s', w'))
            | Inl e \<Rightarrow> (Some e, s, w')))"

fun process_positions ::
  "Session \<Rightarrow> Warehouse_object \<Rightarrow> DeliveryPosition list \<Rightarrow> exn option \<times> Session \<times> Warehouse_object" where
  "process_positions s w [] = (None, s, w)"
| "process_positions s w (position # rest) =
     (case process_position s w position of
        (Some e, s', w') \<Rightarrow> (Some e, s', w')
      | (None, s', w') \<Rightarrow> process_positions s' w' rest)"

text \<open>
  The three \<^verbatim>\<open>except\<close> clauses of the handler, in their order: each rolls back and
  raises an HTTPException.
\<close>

fun on_error :: "exn \<Rightarrow> Session \<Rightarrow> exn \<times> Session" where
  "on_error IntegrityError s = (HTTPException 409 (str IntegrityError), rollback s)"
| "on_error (HTTPException c m) s = (HTTPException c m, rollback s)"
| "on_error e s = (HTTPException 500 (str e), rollback s)"

text \<open>
  The handler \<^verbatim>\<open>create\<close> of routers/delivery.py, run on its own session over the store:
  the response or the HTTPException raised, and the store afterwards.
\<close>

definition delivery_create :: "database \<Rightarrow> Delivery \<Rightarrow> (exn + WarehouseResponse) \<times> database" where
  "delivery_create d delivery =
     (let s = Session_open d
      in case find_by_id Warehouse_model (use_session s) (d_warehouse_id delivery) of
           Inl e \<Rightarrow> (let (h, s') = on_error e s in (Inl h, db s'))
         | Inr r \<Rightarrow>
             (case process_positions s \<lparr>ref = r, stock_rel = None\<rparr> (positions delivery) of
                (Some e, s', w) \<Rightarrow> (let (h, s'') = on_error e s' in (Inl h, db s''))
              | (None, s', w) \<Rightarrow>
                  (let s'' = commit s'
                   in (Inr (WarehouseResponse_model_validate s'' (expire w)), db s''))))"

text \<open>
  The request body is validated against \<^verbatim>\<open>models.Delivery\<close> before the handler runs;
  a body that fails is answered with status 422. A field constraint is the \<^verbatim>\<open>ge\<close> bound
  of its \<^verbatim>\<open>Field\<close>, where it has one: \<^verbatim>\<open>DeliveryPosition.quantity\<close> is a plain
  \<^verbatim>\<open>int\<close>, \<^verbatim>\<open>WarehousePatch.max_capacity\<close> has \<^verbatim>\<open>ge=1\<close>.
\<close>

definition field_valid :: "int option \<Rightarrow> int \<Rightarrow> bool" where
  "field_valid ge v = (case ge of None \<Rightarrow> True | Some b \<Rightarrow> b \<le> v)"

definition DeliveryPosition_quantity_ge :: "int option" where
  "DeliveryPosition_quantity_ge = None"

definition Delivery_valid :: "Delivery \<Rightarrow> bool" where
  "Delivery_valid delivery =
     list_all (\<lambda>p. field_valid DeliveryPosition_quantity_ge (dp_quantity p)) (positions delivery)"

definition validation_error :: exn where
  "validation_error = HTTPException 422 ''validation error''"

definition post_delivery :: "database \<Rightarrow> Delivery \<Rightarrow> (exn + WarehouseResponse) \<times> database" where
  "post_delivery d delivery =
     (if Delivery_valid delivery then delivery_create d delivery
      else (Inl validation_error, d))"

section \<open>The warehouse patch handler (routers/warehouses.py)\<close>

record WarehousePatch =
  p_location :: "string option"
  p_max_capacity :: "int option"

definition WarehousePatch_max_capacity_ge :: "int option" where
  "WarehousePatch_max_capacity_ge = Some 1"

definition WarehousePatch_valid :: "WarehousePatch \<Rightarrow> bool" where
  "WarehousePatch_valid patch =
     ((case p_location patch of None \<Rightarrow> True | Some l \<Rightarrow> 2 \<le> length l) \<and>
      (case p_max_capacity patch of
         None \<Rightarrow> True
       | Some m \<Rightarrow> field_valid WarehousePatch_max_capacity_ge m))"

text \<open>
  \<^verbatim>\<open>update_warehouse\<close>: a RepositoryException of the lookup becomes a 404; any other
  exception leaves the handler as it is. The attribute assignments change the object, and
  \<^verbatim>\<open>repository.update\<close> flushes it.
\<close>

definition update_warehouse ::
  "database \<Rightarrow> string \<Rightarrow> WarehousePatch \<Rightarrow> (exn + WarehouseResponseSimple) \<times> database" where
  "update_warehouse d sl new_warehouse =
     (let s = Session_open d
      in case find_by_slug Warehouse_model (use_session s) sl of
           Inl (RepositoryException m) \<Rightarrow> (Inl (HTTPException 404 m), d)
         | Inl e \<Rightarrow> (Inl e, d)
         | Inr r \<Rightarrow>
             (let w = \<lparr>ref = r, stock_rel = None\<rparr>;
                  w0 = row s w;
                  (w1, upd1) = (case p_location new_warehouse of
                                  None \<Rightarrow> (w0, False)
                                | Some l \<Rightarrow> (w0\<lparr>location := l\<rparr>, True));
                  (w2, do_update) = (case p_max_capacity new_warehouse of
                                       None \<Rightarrow> (w1, upd1)
                                     | Some m \<Rightarrow> (w1\<lparr>max_capacity := m\<rparr>, True))
              in if do_update
                 then (case update Warehouse_model (use_session s) r w2 of
                         Inl e \<Rightarrow> (Inl e, d)
                       | Inr s' \<Rightarrow>
                           (let s'' = commit s'
                            in (Inr (WarehouseResponseSimple_model_validate s'' (expire w)), db s'')))
                 else (let s' = rollback s
                       in (Inr (WarehouseResponseSimple_model_validate s' (expire w)), db s'))))"

definition patch_warehouse ::
  "database \<Rightarrow> string \<Rightarrow> WarehousePatch \<Rightarrow> (exn + WarehouseResponseSimple) \<times> database" where
  "patch_warehouse d sl new_warehouse =
     (if WarehousePatch_valid new_warehouse then update_warehouse d sl new_warehouse
      else (Inl validation_error, d))"

section \<open>Properties\<close>

text \<open>
  The sum of the stock quantities of a warehouse in a store: what
  \<^verbatim>\<open>sum(s.quantity for s in self.stock)\<close> is on a freshly loaded object.
\<close>

definition stock_sum :: "database \<Rightarrow> uuid \<Rightarrow> int" where
  "stock_sum d wid =
     sum_list (map quantity (filter (\<lambda>p. warehouse_id p = wid) (stockposition d)))"

text \<open>The stock position that the \<^verbatim>\<open>except\<close> branch of the loop constructs.\<close>

definition new_stock :: "Session \<Rightarrow> Warehouse_object \<Rightarrow> DeliveryPosition \<Rightarrow> StockPosition" where
  "new_stock s w p = \<lparr>sp_id = uuid4 (map sp_id (stockposition (txn s))),
                         material_id = dp_material_id p,
                         warehouse_id = w_id (row s w),
                         quantity = dp_quantity p\<rparr>"

text \<open>What a line item leaves alone, whatever its outcome.\<close>

definition same_frame :: "Session \<times> Warehouse_object \<Rightarrow> Session \<times> Warehouse_object \<Rightarrow> bool" where
  "same_frame a b \<longleftrightarrow>
     db (fst b) = db (fst a) \<and> ref (snd b) = ref (snd a) \<and>
     warehouse (txn (fst b)) = warehouse (txn (fst a)) \<and>
     material (txn (fst b)) = material (txn (fst a)) \<and>
     foreign_keys (txn (fst b)) = foreign_keys (txn (fst a))"


text \<open>The collection of the warehouse object is unloaded or holds all its positions.\<close>

definition live :: "Session \<Rightarrow> Warehouse_object \<Rightarrow> bool" where
  "live s w \<longleftrightarrow>
     (case stock_rel w of
        None \<Rightarrow> True
      | Some refs \<Rightarrow> refs = select_where (\<lambda>p. warehouse_id p = w_id (row s w)) (stockposition (txn s)))"

text \<open>Every line item names a material of which the warehouse has exactly one position.\<close>

definition all_stocked :: "Session \<Rightarrow> Warehouse_object \<Rightarrow> DeliveryPosition list \<Rightarrow> bool" where
  "all_stocked s w ps =
     list_all (\<lambda>p. length (select_where
                  (\<lambda>x. warehouse_id x = w_id (row s w) \<and> material_id x = dp_material_id p)
                  (stockposition (txn s))) = 1) ps"

subsection \<open>Example data (tests/test\_delivery.py)\<close>

text \<open>
  The warehouse and the two materials of \<^verbatim>\<open>test_delivery_basic\<close>, on a store that
  enforces foreign keys, and some deliveries to it. \<open>overfull_store\<close> is a store whose
  warehouse holds more than its capacity.
\<close>

definition sulphur :: uuid where "sulphur = 10"

definition hydrogen :: uuid where "hydrogen = 11"

definition test_warehouse :: "int \<Rightarrow> Warehouse" where
  "test_warehouse cap =
     \<lparr>w_id = 1, name = ''Test Warehouse'', slug = ''test-warehouse'', location = ''Wien'',
      max_capacity = cap\<rparr>"

definition test_store :: "int \<Rightarrow> database" where
  "test_store cap =
     \<lparr>warehouse = [test_warehouse cap], material = [sulphur, hydrogen], stockposition = [],
      foreign_keys = True\<rparr>"

definition test_delivery :: "int \<Rightarrow> int \<Rightarrow> Delivery" where
  "test_delivery h s =
     \<lparr>d_warehouse_id = 1,
      positions = [\<lparr>dp_material_id = hydrogen, dp_quantity = h\<rparr>,
                   \<lparr>dp_material_id = sulphur, dp_quantity = s\<rparr>]\<rparr>"

definition stocked :: "int \<Rightarrow> int \<Rightarrow> StockPosition list" where
  "stocked h s =
     [\<lparr>sp_id = 1, material_id = hydrogen, warehouse_id = 1, quantity = h\<rparr>,
      \<lparr>sp_id = 2, material_id = sulphur, warehouse_id = 1, quantity = s\<rparr>]"

definition hydrogen_stock :: "int \<Rightarrow> StockPosition list" where
  "hydrogen_stock q = [\<lparr>sp_id = 1, material_id = hydrogen, warehouse_id = 1, quantity = q\<rparr>]"

definition hydrogen_5 :: Delivery where
  "hydrogen_5 = \<lparr>d_warehouse_id = 1, positions = [\<lparr>dp_material_id = hydrogen, dp_quantity = 5\<rparr>]\<rparr>"

definition zero_hydrogen :: DeliveryPosition where
  "zero_hydrogen = \<lparr>dp_material_id = hydrogen, dp_quantity = 0\<rparr>"



definition overfull_store :: database where
  "overfull_store = (test_store 1)\<lparr>stockposition := hydrogen_stock 5\<rparr>"

subsection \<open>Names and queries\<close>

lemma Warehouse_model_name: "model_name Warehouse_model = ''warehouse''"
  by code_simp

lemma StockPosition_model_name: "model_name StockPosition_model = ''stock position''"
  by code_simp

lemma set_select_where: "set (select_where P rows) = {i. i < length rows \<and> P (rows ! i)}"
  by (auto simp: select_where_def)

lemma map_nth_select_where: "map ((!) rows) (select_where P rows) = filter P rows"
proof -
  have "filter P (map ((!) rows) [0..<length rows]) = filter P rows"
    by (simp add: map_nth)
  then show ?thesis
    by (simp add: select_where_def filter_map comp_def)
qed


lemma sum_quantity_update:
  assumes "i < length rows" and "warehouse_id (rows ! i) = wid"
  shows "sum_list (map quantity (filter (\<lambda>p. warehouse_id p = wid)
            (rows[i := (rows ! i)\<lparr>quantity := quantity (rows ! i) + q\<rparr>])))
         = sum_list (map quantity (filter (\<lambda>p. warehouse_id p = wid) rows)) + q"
  using assms
proof (induction rows arbitrary: i)
  case Nil
  then show ?case by simp
next
  case (Cons a rows)
  then show ?case by (cases i) auto
qed

lemma select_where_update:
  assumes "P v = P (rows ! i)"
  shows "select_where P (rows[i := v]) = select_where P rows"
proof -
  have "\<And>j. j < length rows \<Longrightarrow> P (rows[i := v] ! j) = P (rows ! j)"
    using assms by (case_tac "j = i") simp_all
  then show ?thesis
    by (auto simp: select_where_def intro: filter_cong)
qed

lemma select_where_one:
  assumes "select_where P rows = [r]"
  shows "r < length rows" and "P (rows ! r)"
proof -
  have "r \<in> set (select_where P rows)" using assms by simp
  then show "r < length rows" and "P (rows ! r)" by (simp_all add: set_select_where)
qed







subsection \<open>The loop of the delivery handler\<close>


lemma fold_max_ge: "a \<le> fold max xs (a::nat)"
  by (induction xs arbitrary: a) (auto intro: order_trans [OF max.cobounded2])

lemma fold_max_mem: "x \<in> set xs \<Longrightarrow> x \<le> fold max xs (a::nat)"
proof (induction xs arbitrary: a)
  case Nil
  then show ?case by simp
next
  case (Cons y ys)
  show ?case
  proof (cases "x = y")
    case True
    have "x \<le> max x a" by simp
    also have "\<dots> \<le> fold max ys (max x a)" by (rule fold_max_ge)
    finally show ?thesis using True by simp
  next
    case False
    with Cons show ?thesis by simp
  qed
qed

lemma uuid4_fresh: "uuid4 used \<notin> set used"
proof
  assume "uuid4 used \<in> set used"
  then have "uuid4 used \<le> fold max used 0" by (rule fold_max_mem)
  then show False by (simp add: uuid4_def)
qed

lemma Warehouse_capacity_snd:
  "ref (snd (Warehouse_capacity s w)) = ref w"
  "row s (snd (Warehouse_capacity s w)) = row s w"
  by (simp_all add: Warehouse_capacity_def Warehouse_stock_def row_def Let_def)

lemma update_quantity:
  "update StockPosition_model (use_session s) r ((stockposition (txn s) ! r)\<lparr>quantity := v\<rparr>) =
     Inr (s\<lparr>txn := (txn s)\<lparr>stockposition :=
             (stockposition (txn s))[r := (stockposition (txn s) ! r)\<lparr>quantity := v\<rparr>]\<rparr>\<rparr>)"
  by (simp add: update_def use_session_def StockPosition_model_def Let_def)

lemma find_stock:
  "find_by_warehouse_id_and_material_id (use_session s) wid mid =
     (case select_where (\<lambda>r. warehouse_id r = wid \<and> material_id r = mid) (stockposition (txn s)) of
        [] \<Rightarrow> Inl (not_found StockPosition_model)
      | [r] \<Rightarrow> Inr r
      | _ \<Rightarrow> Inl MultipleResultsFound)"
  by (simp add: find_by_warehouse_id_and_material_id_def use_session_def split: list.splits)

lemma create_stock:
  "create StockPosition_model (use_session s) (new_stock s w p) =
     (if foreign_keys (txn s) \<and> \<not> (dp_material_id p \<in> set (material (txn s)) \<and> w_id (row s w) \<in> set (map w_id (warehouse (txn s))))
      then Inl IntegrityError
      else Inr (length (stockposition (txn s)), s\<lparr>txn := (txn s)\<lparr>stockposition := stockposition (txn s) @ [new_stock s w p]\<rparr>\<rparr>))"
  using uuid4_fresh [of "map sp_id (stockposition (txn s))"]
  by (simp add: create_def use_session_def StockPosition_model_def Let_def
      StockPosition_constraints_def new_stock_def)

lemma process_position_exceeded:
  assumes "fst (Warehouse_capacity s w) < dp_quantity p"
  shows "process_position s w p = (Some capacity_exceeded, s, snd (Warehouse_capacity s w))"
proof -
  obtain cap w' where cw: "Warehouse_capacity s w = (cap, w')" by (cases "Warehouse_capacity s w")
  show ?thesis
    using assms cw by (simp add: process_position_def)
qed

lemma process_position_update:
  assumes "\<not> fst (Warehouse_capacity s w) < dp_quantity p"
    and "select_where (\<lambda>r. warehouse_id r = w_id (row s w) \<and> material_id r = dp_material_id p)
           (stockposition (txn s)) = [r]"
  shows "process_position s w p =
     (None,
      s\<lparr>txn := (txn s)\<lparr>stockposition := (stockposition (txn s))
          [r := (stockposition (txn s) ! r)\<lparr>quantity := quantity (stockposition (txn s) ! r) + dp_quantity p\<rparr>]\<rparr>\<rparr>,
      snd (Warehouse_capacity s w))"
proof -
  obtain cap w' where cw: "Warehouse_capacity s w = (cap, w')" by (cases "Warehouse_capacity s w")
  have rw: "row s w' = row s w" using Warehouse_capacity_snd(2) [of s w] cw by simp
  show ?thesis
    using assms cw by (simp add: process_position_def rw find_stock update_quantity Let_def)
qed

lemma process_position_create:
  assumes "\<not> fst (Warehouse_capacity s w) < dp_quantity p"
    and "select_where (\<lambda>r. warehouse_id r = w_id (row s w) \<and> material_id r = dp_material_id p)
           (stockposition (txn s)) = []"
  shows "process_position s w p =
     (if foreign_keys (txn s) \<and> \<not> (dp_material_id p \<in> set (material (txn s)) \<and> w_id (row s w) \<in> set (map w_id (warehouse (txn s))))
      then (Some IntegrityError, s, snd (Warehouse_capacity s w))
      else (None, s\<lparr>txn := (txn s)\<lparr>stockposition := stockposition (txn s) @ [new_stock s w p]\<rparr>\<rparr>,
            snd (Warehouse_capacity s w)))"
proof -
  obtain cap w' where cw: "Warehouse_capacity s w = (cap, w')" by (cases "Warehouse_capacity s w")
  have rw: "row s w' = row s w" using Warehouse_capacity_snd(2) [of s w] cw by simp
  have ns: "new_stock s w' p = new_stock s w p" by (simp add: new_stock_def rw)
  show ?thesis
    using assms cw create_stock [of s w p]
    by (simp add: process_position_def rw find_stock not_found_def new_stock_def [symmetric] ns)
qed

lemma process_position_multiple:
  assumes "\<not> fst (Warehouse_capacity s w) < dp_quantity p"
    and "select_where (\<lambda>r. warehouse_id r = w_id (row s w) \<and> material_id r = dp_material_id p)
           (stockposition (txn s)) = r # r' # rs"
  shows "process_position s w p = (Some MultipleResultsFound, s, snd (Warehouse_capacity s w))"
proof -
  obtain cap w' where cw: "Warehouse_capacity s w = (cap, w')" by (cases "Warehouse_capacity s w")
  have rw: "row s w' = row s w" using Warehouse_capacity_snd(2) [of s w] cw by simp
  show ?thesis
    using assms cw by (simp add: process_position_def rw find_stock)
qed


lemma process_position_shape:
  obtains (exceeded) "process_position s w p = (Some capacity_exceeded, s, snd (Warehouse_capacity s w))"
  | (updated) r where "r < length (stockposition (txn s))"
      "warehouse_id (stockposition (txn s) ! r) = w_id (row s w)"
      "process_position s w p =
        (None,
         s\<lparr>txn := (txn s)\<lparr>stockposition := (stockposition (txn s))
            [r := (stockposition (txn s) ! r)\<lparr>quantity := quantity (stockposition (txn s) ! r) + dp_quantity p\<rparr>]\<rparr>\<rparr>,
         snd (Warehouse_capacity s w))"
  | (created) "select_where (\<lambda>r. warehouse_id r = w_id (row s w) \<and> material_id r = dp_material_id p)
           (stockposition (txn s)) = []"
      "process_position s w p =
        (None, s\<lparr>txn := (txn s)\<lparr>stockposition := stockposition (txn s) @ [new_stock s w p]\<rparr>\<rparr>,
         snd (Warehouse_capacity s w))"
  | (failed) e where "process_position s w p = (Some e, s, snd (Warehouse_capacity s w))"
proof (cases "fst (Warehouse_capacity s w) < dp_quantity p")
  case True
  then show ?thesis using exceeded process_position_exceeded by blast
next
  case False
  let ?sel = "select_where (\<lambda>r. warehouse_id r = w_id (row s w) \<and> material_id r = dp_material_id p)
           (stockposition (txn s))"
  show ?thesis
  proof (cases ?sel rule: one.cases)
    case 1
    then show ?thesis
      using process_position_create [OF False] created failed by (metis (no_types, lifting))
  next
    case (2 r)
    then have "r \<in> set ?sel" by simp
    then have "r < length (stockposition (txn s))" "warehouse_id (stockposition (txn s) ! r) = w_id (row s w)"
      by (simp_all add: set_select_where)
    then show ?thesis
      using process_position_update [OF False 2] updated by blast
  next
    case (3 r r' rs)
    then show ?thesis
      using process_position_multiple [OF False] failed by blast
  qed
qed

lemma process_position_frame:
  assumes "process_position s w p = (res, s', w')"
  shows "same_frame (s, w) (s', w')"
  by (rule process_position_shape [of s w p])
     (use assms in \<open>auto simp: same_frame_def Warehouse_capacity_snd\<close>)

lemma process_position_sum:
  assumes "process_position s w p = (None, s', w')"
  shows "stock_sum (txn s') (w_id (row s w)) = stock_sum (txn s) (w_id (row s w)) + dp_quantity p"
  by (rule process_position_shape [of s w p])
     (use assms in \<open>auto simp: stock_sum_def sum_quantity_update new_stock_def\<close>)

lemma same_frame_row: "same_frame (s, w) (s', w') \<Longrightarrow> row s' w' = row s w"
  by (simp add: same_frame_def row_def)

lemma same_frame_trans: "same_frame a b \<Longrightarrow> same_frame b c \<Longrightarrow> same_frame a c"
  by (simp add: same_frame_def)

lemma process_positions_frame:
  "process_positions s w ps = (res, s', w') \<Longrightarrow> same_frame (s, w) (s', w')"
proof (induction ps arbitrary: s w)
  case Nil
  then show ?case by (simp add: same_frame_def)
next
  case (Cons p ps)
  obtain r1 s1 w1 where step: "process_position s w p = (r1, s1, w1)"
    by (cases "process_position s w p")
  have f1: "same_frame (s, w) (s1, w1)" using step by (rule process_position_frame)
  show ?case
  proof (cases r1)
    case None
    with Cons.prems step have "process_positions s1 w1 ps = (res, s', w')" by simp
    then have "same_frame (s1, w1) (s', w')" by (rule Cons.IH)
    with f1 show ?thesis by (rule same_frame_trans)
  next
    case (Some e)
    with Cons.prems step f1 show ?thesis by auto
  qed
qed

lemma process_positions_sum:
  "process_positions s w ps = (None, s', w') \<Longrightarrow>
   stock_sum (txn s') (w_id (row s w)) =
     stock_sum (txn s) (w_id (row s w)) + sum_list (map dp_quantity ps)"
proof (induction ps arbitrary: s w)
  case Nil
  then show ?case by simp
next
  case (Cons p ps)
  obtain r1 s1 w1 where step: "process_position s w p = (r1, s1, w1)"
    by (cases "process_position s w p")
  with Cons.prems have r1: "r1 = None" by (cases r1) auto
  with Cons.prems step have rest: "process_positions s1 w1 ps = (None, s', w')" by simp
  have "row s1 w1 = row s w"
    using process_position_frame [OF step] by (rule same_frame_row)
  with Cons.IH [OF rest] process_position_sum [of s w p s1 w1] step r1
  show ?case by simp
qed



text \<open>Line items for materials already in stock are checked against the current capacity.\<close>

lemma live_capacity:
  assumes "live s w"
  shows "fst (Warehouse_capacity s w) = max_capacity (row s w) - stock_sum (txn s) (w_id (row s w))"
    and "live s (snd (Warehouse_capacity s w))"
  using assms
  by (auto simp: live_def Warehouse_capacity_def Warehouse_stock_def capacity_def stock_sum_def
      Let_def row_def map_nth_select_where [symmetric] split: option.splits)

lemma stocked_step:
  assumes l: "live s w" and st: "all_stocked s w (p # ps)"
  obtains (exceeded) "max_capacity (row s w) - stock_sum (txn s) (w_id (row s w)) < dp_quantity p"
      "process_position s w p = (Some capacity_exceeded, s, snd (Warehouse_capacity s w))"
  | (updated) s' w' where
      "dp_quantity p \<le> max_capacity (row s w) - stock_sum (txn s) (w_id (row s w))"
      "process_position s w p = (None, s', w')" "live s' w'" "all_stocked s' w' ps"
proof (cases "fst (Warehouse_capacity s w) < dp_quantity p")
  case True
  then show ?thesis
    using exceeded process_position_exceeded [OF True] live_capacity(1) [OF l] by simp
next
  case False
  let ?tbl = "stockposition (txn s)"
  let ?P = "\<lambda>x. warehouse_id x = w_id (row s w) \<and> material_id x = dp_material_id p"
  from st have "length (select_where ?P ?tbl) = 1" by (simp add: all_stocked_def)
  then obtain r where sel: "select_where ?P ?tbl = [r]"
    by (cases "select_where ?P ?tbl") auto
  then have r: "r < length ?tbl" and wr: "warehouse_id (?tbl ! r) = w_id (row s w)"
    using select_where_one [OF sel] by simp_all
  let ?new = "(?tbl ! r)\<lparr>quantity := quantity (?tbl ! r) + dp_quantity p\<rparr>"
  let ?s' = "s\<lparr>txn := (txn s)\<lparr>stockposition := ?tbl[r := ?new]\<rparr>\<rparr>"
  let ?w' = "snd (Warehouse_capacity s w)"
  have step: "process_position s w p = (None, ?s', ?w')"
    using process_position_update [OF False sel] .
  have row': "row ?s' ?w' = row s w"
    by (simp add: row_def Warehouse_capacity_snd(1))
  have keep: "\<And>Q. (\<And>x v. Q (x\<lparr>quantity := v\<rparr>) = Q x) \<Longrightarrow>
      select_where Q (?tbl[r := ?new]) = select_where Q ?tbl"
    by (rule select_where_update) simp
  have l': "live ?s' ?w'"
    using live_capacity(2) [OF l] keep [of "\<lambda>p. warehouse_id p = w_id (row s w)"]
    by (simp add: live_def row' split: option.splits)
       (simp add: row_def Warehouse_capacity_snd(1))
  have st': "all_stocked ?s' ?w' ps"
    using st keep by (simp add: all_stocked_def row' list_all_iff)
  show ?thesis
    using updated [OF _ step l' st'] False live_capacity(1) [OF l] by simp
qed


lemma stocked_positions_checked:
  assumes "live s w" and "all_stocked s w ps" and "ps \<noteq> []"
    and "max_capacity (row s w) < stock_sum (txn s) (w_id (row s w)) + sum_list (map dp_quantity ps)"
  shows "fst (process_positions s w ps) = Some capacity_exceeded"
  using assms
proof (induction ps arbitrary: s w)
  case Nil
  then show ?case by simp
next
  case (Cons p ps)
  from Cons.prems(1,2) show ?case
  proof (cases rule: stocked_step)
    case exceeded
    then show ?thesis by simp
  next
    case (updated s' w')
    have frame: "same_frame (s, w) (s', w')"
      using updated(2) by (rule process_position_frame)
    then have row': "row s' w' = row s w" by (rule same_frame_row)
    have sum': "stock_sum (txn s') (w_id (row s w)) =
        stock_sum (txn s) (w_id (row s w)) + dp_quantity p"
      using updated(2) by (rule process_position_sum)
    show ?thesis
    proof (cases "ps = []")
      case True
      with Cons.prems(4) updated(1) show ?thesis by simp
    next
      case False
      have "max_capacity (row s' w') <
          stock_sum (txn s') (w_id (row s' w')) + sum_list (map dp_quantity ps)"
        using Cons.prems(4) by (simp add: row' sum')
      with updated(3,4) False have "fst (process_positions s' w' ps) = Some capacity_exceeded"
        by (rule Cons.IH)
      with updated(2) show ?thesis by simp
    qed
  qed
qed

subsection \<open>The handlers\<close>

lemma find_warehouse:
  "find_by_id Warehouse_model (use_session s) i =
     (case select_where (\<lambda>r. w_id r = i) (warehouse (txn s)) of
        [] \<Rightarrow> Inl (not_found Warehouse_model)
      | [r] \<Rightarrow> Inr r
      | _ \<Rightarrow> Inl MultipleResultsFound)"
  by (simp add: find_by_id_def use_session_def Warehouse_model_def split: list.splits)

lemma find_warehouse_sel:
  assumes "find_by_id Warehouse_model (use_session s) i = Inr r"
  shows "select_where (\<lambda>r. w_id r = i) (warehouse (txn s)) = [r]"
  using assms by (simp add: find_warehouse split: list.splits)

lemma find_warehouse_Inr:
  assumes "find_by_id Warehouse_model (use_session s) i = Inr r"
  shows "r < length (warehouse (txn s))" and "w_id (warehouse (txn s) ! r) = i"
proof -
  have "select_where (\<lambda>r. w_id r = i) (warehouse (txn s)) = [r]"
    using assms by (simp add: find_warehouse split: list.splits)
  then have "r \<in> set (select_where (\<lambda>r. w_id r = i) (warehouse (txn s)))" by simp
  then show "r < length (warehouse (txn s))" and "w_id (warehouse (txn s) ! r) = i"
    by (simp_all add: set_select_where)
qed

lemma find_warehouse_one:
  "select_where (\<lambda>x. w_id x = i) (warehouse d) = [r] \<Longrightarrow>
   find_by_id Warehouse_model (use_session (Session_open d)) i = Inr r"
  by (simp add: find_warehouse Session_open_def)



lemma response_fresh:
  "r_capacity (WarehouseResponse_model_validate s (expire w)) =
     max_capacity (row s w) - stock_sum (txn s) (w_id (row s w))"
  "r_max_capacity (WarehouseResponse_model_validate s (expire w)) = max_capacity (row s w)"
  "r_id (WarehouseResponse_model_validate s (expire w)) = w_id (row s w)"
  "r_stock (WarehouseResponse_model_validate s (expire w)) =
     Some (filter (\<lambda>p. warehouse_id p = w_id (row s w)) (stockposition (txn s)))"
  by (simp_all add: WarehouseResponse_model_validate_def Warehouse_capacity_def
      Warehouse_stock_def expire_def row_def capacity_def stock_sum_def Let_def
      map_nth_select_where [symmetric])



lemma delivery_create_success:
  assumes "delivery_create d delivery = (Inr resp, d')"
  obtains r s1 w1 where
    "find_by_id Warehouse_model (use_session (Session_open d)) (d_warehouse_id delivery) = Inr r"
    "process_positions (Session_open d) \<lparr>ref = r, stock_rel = None\<rparr> (positions delivery) = (None, s1, w1)"
    "d' = txn s1" "resp = WarehouseResponse_model_validate (commit s1) (expire w1)"
proof (cases "find_by_id Warehouse_model (use_session (Session_open d)) (d_warehouse_id delivery)")
  case (Inl a)
  with assms show ?thesis
    by (simp add: delivery_create_def split: prod.splits)
next
  case (Inr r)
  obtain res s1 w1 where loop:
    "process_positions (Session_open d) \<lparr>ref = r, stock_rel = None\<rparr> (positions delivery) = (res, s1, w1)"
    by (cases "process_positions (Session_open d) \<lparr>ref = r, stock_rel = None\<rparr> (positions delivery)")
  show ?thesis
  proof (cases res)
    case None
    with assms Inr loop have "d' = txn s1" "resp = WarehouseResponse_model_validate (commit s1) (expire w1)"
      by (auto simp: delivery_create_def Let_def commit_def)
    with Inr loop None that [of r s1 w1] show ?thesis by simp
  next
    case (Some a)
    with assms Inr loop show ?thesis
      by (simp add: delivery_create_def split: prod.splits)
  qed
qed



lemma empty_delivery:
  assumes "select_where (\<lambda>x. w_id x = wid) (warehouse d) = [r]"
  shows "delivery_create d \<lparr>d_warehouse_id = wid, positions = []\<rparr> =
           (Inr (WarehouseResponse_model_validate (Session_open d) \<lparr>ref = r, stock_rel = None\<rparr>), d)"
  using assms
  by (simp add: delivery_create_def find_warehouse_one Let_def commit_def expire_def)
     (simp add: Session_open_def)





lemma stocked_delivery_overflow:
  assumes found: "select_where (\<lambda>x. w_id x = d_warehouse_id delivery) (warehouse d) = [r]"
    and stocked: "list_all (\<lambda>p. length (select_where
                    (\<lambda>x. warehouse_id x = d_warehouse_id delivery \<and> material_id x = dp_material_id p)
                    (stockposition d)) = 1) (positions delivery)"
    and nonempty: "positions delivery \<noteq> []"
    and over: "max_capacity (warehouse d ! r) <
        stock_sum d (d_warehouse_id delivery) + sum_list (map dp_quantity (positions delivery))"
  shows "delivery_create d delivery = (Inl capacity_exceeded, d)"
proof -
  let ?s = "Session_open d" and ?w = "\<lparr>ref = r, stock_rel = None\<rparr>"
  have wid: "w_id (warehouse d ! r) = d_warehouse_id delivery"
    using select_where_one(2) [OF found] .
  have rw: "row ?s ?w = warehouse d ! r" by (simp add: row_def Session_open_def)
  have l: "live ?s ?w" by (simp add: live_def)
  have st: "all_stocked ?s ?w (positions delivery)"
    using stocked by (simp add: all_stocked_def rw wid) (simp add: Session_open_def)
  have ov: "max_capacity (row ?s ?w) <
      stock_sum (txn ?s) (w_id (row ?s ?w)) + sum_list (map dp_quantity (positions delivery))"
    using over by (simp add: rw wid) (simp add: Session_open_def)
  have res: "fst (process_positions ?s ?w (positions delivery)) = Some capacity_exceeded"
    using l st nonempty ov by (rule stocked_positions_checked)
  obtain res' s1 w1 where loop: "process_positions ?s ?w (positions delivery) = (res', s1, w1)"
    by (cases "process_positions ?s ?w (positions delivery)")
  have "db s1 = d"
    using process_positions_frame [OF loop] by (simp add: same_frame_def Session_open_def)
  then show ?thesis
    using res loop find_warehouse_one [OF found]
    by (simp add: delivery_create_def capacity_exceeded_def rollback_def)
qed





text \<open>The model gives the five rows of \<^verbatim>\<open>test_delivery_basic\<close> their expected answers.\<close>

lemma test_delivery_basic:
  "fst (delivery_create (test_store 100) (test_delivery 2 1)) =
     Inr \<lparr>r_name = ''Test Warehouse'', r_slug = ''test-warehouse'', r_location = ''Wien'',
          r_capacity = 97, r_max_capacity = 100, r_id = 1, r_stock = Some (stocked 2 1)\<rparr>"
  "delivery_create (test_store 100) (test_delivery 200 100) = (Inl capacity_exceeded, test_store 100)"
  "fst (delivery_create (test_store 100) (test_delivery 20 10)) =
     Inr \<lparr>r_name = ''Test Warehouse'', r_slug = ''test-warehouse'', r_location = ''Wien'',
          r_capacity = 70, r_max_capacity = 100, r_id = 1, r_stock = Some (stocked 20 10)\<rparr>"
  "delivery_create (test_store 1) (test_delivery 2 1) = (Inl capacity_exceeded, test_store 1)"
  "fst (delivery_create (test_store 3) (test_delivery 2 1)) =
     Inr \<lparr>r_name = ''Test Warehouse'', r_slug = ''test-warehouse'', r_location = ''Wien'',
          r_capacity = 0, r_max_capacity = 3, r_id = 1, r_stock = Some (stocked 2 1)\<rparr>"
  by code_simp+

section \<open>The claims\<close>

subsection \<open>Capacity over a whole delivery\<close>

text \<open>
  C1. A delivery whose quantities each fit but whose sum overflows is meant to fail with
  the capacity error and leave the stock as it was. The handler reads
  \<^verbatim>\<open>warehouse.capacity\<close> before every line item, but the stock collection behind it
  was loaded before the first line item and does not hold the positions the loop has
  created since. On a warehouse of capacity 3 with no stock, hydrogen 2 and sulphur 2
  both pass the check against 3: the handler commits both, and the warehouse then holds
  4 with a capacity of -1. (Where every line item names a material already in stock the
  overflow is refused, by \<open>stocked_delivery_overflow\<close>, and a delivery that fails for
  any reason leaves the store as it was, by \<open>delivery_create_failure\<close>.)
\<close>

theorem overflowing_delivery_is_committed:
  "max_capacity (test_warehouse 3) <
     stock_sum (test_store 3) 1 + sum_list (map dp_quantity (positions (test_delivery 2 2))) \<and>
   list_all (\<lambda>p. dp_quantity p \<le> max_capacity (test_warehouse 3)) (positions (test_delivery 2 2)) \<and>
   delivery_create (test_store 3) (test_delivery 2 2) =
     (Inr \<lparr>r_name = ''Test Warehouse'', r_slug = ''test-warehouse'', r_location = ''Wien'',
           r_capacity = - 1, r_max_capacity = 3, r_id = 1, r_stock = Some (stocked 2 2)\<rparr>,
      (test_store 3)\<lparr>stockposition := stocked 2 2\<rparr>)"
  by code_simp

text \<open>
  The check does see an increment of a position that was in stock before the delivery:
  with 1 hydrogen in stock, a delivery of 1 and then 2 hydrogen to the same warehouse
  is refused at its second line item, against a capacity of 1.
\<close>

lemma increment_is_seen_by_the_check:
  "delivery_create ((test_store 3)\<lparr>stockposition := hydrogen_stock 1\<rparr>)
     \<lparr>d_warehouse_id = 1,
      positions = [\<lparr>dp_material_id = hydrogen, dp_quantity = 1\<rparr>,
                   \<lparr>dp_material_id = hydrogen, dp_quantity = 2\<rparr>]\<rparr> =
     (Inl capacity_exceeded, (test_store 3)\<lparr>stockposition := hydrogen_stock 1\<rparr>)"
  by code_simp

subsection \<open>A delivery that succeeds\<close>

text \<open>
  C2. Whenever the handler answers a delivery with a response, the stock quantities of
  the target warehouse sum, in the store afterwards, to their sum before plus the sum of
  the delivered quantities; the response is the warehouse read again after the commit:
  its id is the target's, its stock is the warehouse's stock in the new store, its
  max_capacity is that of the one row with the target's id, and its capacity is that
  max_capacity minus the new stock sum. The warehouse table is unchanged.
\<close>

theorem delivery_adds_quantities:
  assumes "delivery_create d delivery = (Inr resp, d')"
  shows "stock_sum d' (d_warehouse_id delivery) =
           stock_sum d (d_warehouse_id delivery) + sum_list (map dp_quantity (positions delivery)) \<and>
         r_id resp = d_warehouse_id delivery \<and>
         r_capacity resp = r_max_capacity resp - stock_sum d' (d_warehouse_id delivery) \<and>
         r_stock resp = Some (filter (\<lambda>p. warehouse_id p = d_warehouse_id delivery) (stockposition d')) \<and>
         (\<exists>r. select_where (\<lambda>w. w_id w = d_warehouse_id delivery) (warehouse d) = [r] \<and>
              r_max_capacity resp = max_capacity (warehouse d ! r)) \<and>
         warehouse d' = warehouse d"
proof -
  from assms obtain r s1 w1 where
    found: "find_by_id Warehouse_model (use_session (Session_open d)) (d_warehouse_id delivery) = Inr r"
    and loop: "process_positions (Session_open d) \<lparr>ref = r, stock_rel = None\<rparr> (positions delivery) = (None, s1, w1)"
    and d': "d' = txn s1"
    and resp: "resp = WarehouseResponse_model_validate (commit s1) (expire w1)"
    by (rule delivery_create_success)
  let ?s = "Session_open d" and ?w = "\<lparr>ref = r, stock_rel = None\<rparr>"
  have wid: "w_id (row ?s ?w) = d_warehouse_id delivery"
    using find_warehouse_Inr(2) [OF found] by (simp add: row_def)
  have frame: "same_frame (?s, ?w) (s1, w1)" using loop by (rule process_positions_frame)
  then have row1: "row s1 w1 = row ?s ?w" by (rule same_frame_row)
  have rowc: "row (commit s1) w1 = row s1 w1" by (simp add: row_def commit_def)
  have txnc: "txn (commit s1) = txn s1" by (simp add: commit_def)
  have sum: "stock_sum (txn s1) (d_warehouse_id delivery) =
      stock_sum d (d_warehouse_id delivery) + sum_list (map dp_quantity (positions delivery))"
    using process_positions_sum [OF loop] wid by (simp add: Session_open_def)
  have wh: "warehouse (txn s1) = warehouse d"
    using frame by (simp add: same_frame_def Session_open_def)
  have sel: "select_where (\<lambda>w. w_id w = d_warehouse_id delivery) (warehouse d) = [r]"
    using find_warehouse_sel [OF found] by (simp add: Session_open_def)
  have mc: "r_max_capacity resp = max_capacity (warehouse d ! r)"
    by (simp add: resp response_fresh rowc row1) (simp add: row_def Session_open_def)
  show ?thesis
    using sum wh sel mc by (simp add: d' resp response_fresh rowc row1 wid txnc)
qed

theorem delivery_adds_quantities_witness:
  "delivery_create (test_store 3) (test_delivery 2 1) =
     (Inr \<lparr>r_name = ''Test Warehouse'', r_slug = ''test-warehouse'', r_location = ''Wien'',
           r_capacity = 0, r_max_capacity = 3, r_id = 1, r_stock = Some (stocked 2 1)\<rparr>,
      (test_store 3)\<lparr>stockposition := stocked 2 1\<rparr>) \<and>
   stock_sum ((test_store 3)\<lparr>stockposition := stocked 2 1\<rparr>) 1 = stock_sum (test_store 3) 1 + 3 \<and>
   stock_sum ((test_store 3)\<lparr>stockposition := stocked 2 1\<rparr>) 1 = 3"
proof -
  have run: "delivery_create (test_store 3) (test_delivery 2 1) =
     (Inr \<lparr>r_name = ''Test Warehouse'', r_slug = ''test-warehouse'', r_location = ''Wien'',
           r_capacity = 0, r_max_capacity = 3, r_id = 1, r_stock = Some (stocked 2 1)\<rparr>,
      (test_store 3)\<lparr>stockposition := stocked 2 1\<rparr>)"
    by code_simp
  have e: "d_warehouse_id (test_delivery 2 1) = 1"
    "sum_list (map dp_quantity (positions (test_delivery 2 1))) = 3"
    "stock_sum (test_store 3) 1 = 0"
    by code_simp+
  show ?thesis
    using run delivery_adds_quantities [OF run] by (simp add: e)
qed

subsection \<open>Validation of quantities\<close>




subsection \<open>Find or create\<close>



subsection \<open>An absent warehouse\<close>

text \<open>
  C5. When no warehouse has the delivery's warehouse id, the RepositoryException of the
  lookup reaches the last \<^verbatim>\<open>except\<close> clause of the handler: the answer is status 500
  with the detail "warehouse not found", not 404, and the store is unchanged.
\<close>

theorem absent_warehouse_is_internal_error:
  assumes "select_where (\<lambda>w. w_id w = d_warehouse_id delivery) (warehouse d) = []"
  shows "delivery_create d delivery = (Inl (HTTPException 500 ''warehouse not found''), d)"
  using assms
  by (simp add: delivery_create_def find_warehouse Session_open_def not_found_def
      Warehouse_model_name rollback_def)

theorem absent_warehouse_is_internal_error_witness:
  "select_where (\<lambda>w. w_id w = 2) (warehouse (test_store 100)) = [] \<and>
   delivery_create (test_store 100) ((test_delivery 2 1)\<lparr>d_warehouse_id := 2\<rparr>) =
     (Inl (HTTPException 500 ''warehouse not found''), test_store 100)"
proof -
  have h: "select_where (\<lambda>w. w_id w = d_warehouse_id ((test_delivery 2 1)\<lparr>d_warehouse_id := 2\<rparr>))
             (warehouse (test_store 100)) = []"
    by code_simp
  show ?thesis
    using h absent_warehouse_is_internal_error [OF h] by simp
qed

subsection \<open>Integrity errors\<close>




subsection \<open>A repository without a session\<close>



subsection \<open>Zero quantities and empty deliveries\<close>

text \<open>
  C9, as amended. A line item of quantity 0 is accepted when the capacity the check
  reads is not negative: with no stock position for the pair, and a row the store
  accepts, the loop body creates one of quantity 0; with exactly one, it leaves the
  session as it is. A delivery with no line items to an existing warehouse succeeds,
  leaves the store as it is and returns the warehouse with its stock and its capacity.
\<close>

theorem zero_quantity_line_item:
  "(dp_quantity p = 0 \<longrightarrow> 0 \<le> fst (Warehouse_capacity s w) \<longrightarrow>
    select_where (\<lambda>x. warehouse_id x = w_id (row s w) \<and> material_id x = dp_material_id p)
      (stockposition (txn s)) = [] \<longrightarrow>
    ref w < length (warehouse (txn s)) \<longrightarrow>
    (foreign_keys (txn s) \<longrightarrow> dp_material_id p \<in> set (material (txn s))) \<longrightarrow>
    process_position s w p =
      (None,
       s\<lparr>txn := (txn s)\<lparr>stockposition := stockposition (txn s) @
           [\<lparr>sp_id = uuid4 (map sp_id (stockposition (txn s))),
             material_id = dp_material_id p, warehouse_id = w_id (row s w), quantity = 0\<rparr>]\<rparr>\<rparr>,
       snd (Warehouse_capacity s w))) \<and>
   (dp_quantity p = 0 \<longrightarrow> 0 \<le> fst (Warehouse_capacity s w) \<longrightarrow>
    select_where (\<lambda>x. warehouse_id x = w_id (row s w) \<and> material_id x = dp_material_id p)
      (stockposition (txn s)) = [i] \<longrightarrow>
    process_position s w p = (None, s, snd (Warehouse_capacity s w))) \<and>
   (select_where (\<lambda>x. w_id x = wid) (warehouse d) = [r] \<longrightarrow>
    snd (delivery_create d \<lparr>d_warehouse_id = wid, positions = []\<rparr>) = d \<and>
    fst (delivery_create d \<lparr>d_warehouse_id = wid, positions = []\<rparr>) =
      Inr (WarehouseResponse_model_validate (Session_open d) \<lparr>ref = r, stock_rel = None\<rparr>) \<and>
    r_stock (WarehouseResponse_model_validate (Session_open d) \<lparr>ref = r, stock_rel = None\<rparr>) =
      Some (filter (\<lambda>x. warehouse_id x = wid) (stockposition d)) \<and>
    r_capacity (WarehouseResponse_model_validate (Session_open d) \<lparr>ref = r, stock_rel = None\<rparr>) =
      max_capacity (warehouse d ! r) - stock_sum d wid)"
proof (intro conjI impI)
  assume q: "dp_quantity p = 0" and cap: "0 \<le> fst (Warehouse_capacity s w)"
    and sel: "select_where (\<lambda>x. warehouse_id x = w_id (row s w) \<and> material_id x = dp_material_id p)
      (stockposition (txn s)) = []"
    and r: "ref w < length (warehouse (txn s))"
    and fk: "foreign_keys (txn s) \<longrightarrow> dp_material_id p \<in> set (material (txn s))"
  have c: "\<not> fst (Warehouse_capacity s w) < dp_quantity p" using q cap by simp
  have "w_id (row s w) \<in> set (map w_id (warehouse (txn s)))"
    using r by (simp add: row_def)
  then show "process_position s w p =
      (None,
       s\<lparr>txn := (txn s)\<lparr>stockposition := stockposition (txn s) @
           [\<lparr>sp_id = uuid4 (map sp_id (stockposition (txn s))),
             material_id = dp_material_id p, warehouse_id = w_id (row s w), quantity = 0\<rparr>]\<rparr>\<rparr>,
       snd (Warehouse_capacity s w))"
    using process_position_create [OF c sel] fk q by (auto simp: new_stock_def)
next
  assume q: "dp_quantity p = 0" and cap: "0 \<le> fst (Warehouse_capacity s w)"
    and sel: "select_where (\<lambda>x. warehouse_id x = w_id (row s w) \<and> material_id x = dp_material_id p)
      (stockposition (txn s)) = [i]"
  have c: "\<not> fst (Warehouse_capacity s w) < dp_quantity p" using q cap by simp
  show "process_position s w p = (None, s, snd (Warehouse_capacity s w))"
    using process_position_update [OF c sel] q by simp
next
  assume found: "select_where (\<lambda>x. w_id x = wid) (warehouse d) = [r]"
  show "snd (delivery_create d \<lparr>d_warehouse_id = wid, positions = []\<rparr>) = d"
    using empty_delivery [OF found] by simp
  show "fst (delivery_create d \<lparr>d_warehouse_id = wid, positions = []\<rparr>) =
      Inr (WarehouseResponse_model_validate (Session_open d) \<lparr>ref = r, stock_rel = None\<rparr>)"
    using empty_delivery [OF found] by simp
  have wid: "w_id (warehouse d ! r) = wid" using select_where_one(2) [OF found] .
  have e: "\<lparr>ref = r, stock_rel = None\<rparr> = expire \<lparr>ref = r, stock_rel = None\<rparr>"
    by (simp add: expire_def)
  show "r_stock (WarehouseResponse_model_validate (Session_open d) \<lparr>ref = r, stock_rel = None\<rparr>) =
      Some (filter (\<lambda>x. warehouse_id x = wid) (stockposition d))"
    by (subst e) (simp add: response_fresh row_def Session_open_def wid)
  show "r_capacity (WarehouseResponse_model_validate (Session_open d) \<lparr>ref = r, stock_rel = None\<rparr>) =
      max_capacity (warehouse d ! r) - stock_sum d wid"
    by (subst e) (simp add: response_fresh row_def Session_open_def wid)
qed

theorem zero_quantity_line_item_witness:
  "process_position (Session_open (test_store 100)) \<lparr>ref = 0, stock_rel = None\<rparr> zero_hydrogen =
     (None,
      \<lparr>db = test_store 100, txn = (test_store 100)\<lparr>stockposition := hydrogen_stock 0\<rparr>\<rparr>,
      \<lparr>ref = 0, stock_rel = Some []\<rparr>) \<and>
   process_position (Session_open ((test_store 100)\<lparr>stockposition := hydrogen_stock 5\<rparr>))
     \<lparr>ref = 0, stock_rel = None\<rparr> zero_hydrogen =
     (None, Session_open ((test_store 100)\<lparr>stockposition := hydrogen_stock 5\<rparr>),
      \<lparr>ref = 0, stock_rel = Some [0]\<rparr>) \<and>
   delivery_create ((test_store 100)\<lparr>stockposition := hydrogen_stock 5\<rparr>)
      \<lparr>d_warehouse_id = 1, positions = []\<rparr> =
     (Inr \<lparr>r_name = ''Test Warehouse'', r_slug = ''test-warehouse'', r_location = ''Wien'',
           r_capacity = 95, r_max_capacity = 100, r_id = 1, r_stock = Some (hydrogen_stock 5)\<rparr>,
      (test_store 100)\<lparr>stockposition := hydrogen_stock 5\<rparr>)"
proof -
  let ?d1 = "(test_store 100)\<lparr>stockposition := hydrogen_stock 5\<rparr>"
  let ?s1 = "Session_open ?d1"
  let ?s0 = "Session_open (test_store 100)"
  let ?w = "\<lparr>ref = 0, stock_rel = None\<rparr>"
  let ?p = zero_hydrogen
  have q: "dp_quantity ?p = 0" by code_simp
  have a1: "0 \<le> fst (Warehouse_capacity ?s0 ?w)" by code_simp
  have a2: "select_where (\<lambda>x. warehouse_id x = w_id (row ?s0 ?w) \<and> material_id x = dp_material_id ?p)
      (stockposition (txn ?s0)) = []" by code_simp
  have a3: "ref ?w < length (warehouse (txn ?s0))" by code_simp
  have a4: "dp_material_id ?p \<in> set (material (txn ?s0))" by code_simp
  have b1: "0 \<le> fst (Warehouse_capacity ?s1 ?w)" by code_simp
  have b2: "select_where (\<lambda>x. warehouse_id x = w_id (row ?s1 ?w) \<and> material_id x = dp_material_id ?p)
      (stockposition (txn ?s1)) = [0]" by code_simp
  have c1: "select_where (\<lambda>x. w_id x = 1) (warehouse ?d1) = [0]" by code_simp
  note a = zero_quantity_line_item [THEN conjunct1, rule_format, OF q a1 a2 a3 a4]
  note b = zero_quantity_line_item [THEN conjunct2, THEN conjunct1, rule_format, OF q b1 b2]
  note c = zero_quantity_line_item [THEN conjunct2, THEN conjunct2, rule_format, OF c1]
  have ra: "(None::exn option,
       ?s0\<lparr>txn := (txn ?s0)\<lparr>stockposition := stockposition (txn ?s0) @
           [\<lparr>sp_id = uuid4 (map sp_id (stockposition (txn ?s0))),
             material_id = dp_material_id ?p, warehouse_id = w_id (row ?s0 ?w), quantity = 0\<rparr>]\<rparr>\<rparr>,
       snd (Warehouse_capacity ?s0 ?w)) =
     (None,
      \<lparr>db = test_store 100, txn = (test_store 100)\<lparr>stockposition := hydrogen_stock 0\<rparr>\<rparr>,
      \<lparr>ref = 0, stock_rel = Some []\<rparr>)" by code_simp
  have rb: "snd (Warehouse_capacity ?s1 ?w) = \<lparr>ref = 0, stock_rel = Some [0]\<rparr>" by code_simp
  have rc: "WarehouseResponse_model_validate (Session_open ?d1) ?w =
      \<lparr>r_name = ''Test Warehouse'', r_slug = ''test-warehouse'', r_location = ''Wien'',
           r_capacity = 95, r_max_capacity = 100, r_id = 1, r_stock = Some (hydrogen_stock 5)\<rparr>"
    by code_simp
  have c': "delivery_create ?d1 \<lparr>d_warehouse_id = 1, positions = []\<rparr> =
      (Inr (WarehouseResponse_model_validate (Session_open ?d1) ?w), ?d1)"
    using c by (simp add: prod_eq_iff)
  show ?thesis
    using a [unfolded ra] b [unfolded rb] c' [unfolded rc] by simp
qed

text \<open>
  C9 as stated fails: after a delivery of 5 hydrogen and a patch of max_capacity to 1 the
  capacity is -4, and a line item of quantity 0 is refused with the capacity error.
\<close>

theorem zero_quantity_rejected_counterexample:
  "overfull_store =
     snd (patch_warehouse (snd (post_delivery (test_store 100) hydrogen_5)) ''test-warehouse''
            \<lparr>p_location = None, p_max_capacity = Some 1\<rparr>) \<and>
   post_delivery overfull_store \<lparr>d_warehouse_id = 1, positions = [zero_hydrogen]\<rparr> =
     (Inl capacity_exceeded, overfull_store)"
  by code_simp

subsection \<open>Patching max\_capacity below the stock\<close>



end
